theory Spec2Isabelle
  imports Main
begin

section \<open>Errors (Persistent/Errors/index.ts)\<close>

text \<open>
  The helpers of the Errors module all end in \<^verbatim>\<open>throw new Error(s)\<close>; the kind of the
  failure is carried by the message only. A thrown exception is the left summand of
  the result. \<open>TypeError\<close> is the error the JavaScript runtime itself raises when a
  property of \<^verbatim>\<open>undefined\<close> is read.
\<close>

datatype error = Error string | TypeError

definition throwError :: "string \<Rightarrow> error + 'r" where
  "throwError s = Inl (Error s)"

definition throwInvalidOperation :: "string \<Rightarrow> error + 'r" where
  "throwInvalidOperation s =
     throwError (''Invalid operation'' @ (if s \<noteq> [] then '': '' @ s else []))"

definition throwArgumentError :: "string \<Rightarrow> string option \<Rightarrow> error + 'r" where
  "throwArgumentError name message =
     throwError (''Invalid '' @
       (if name \<noteq> [] then ''value for parameter '' @ [CHR 0x22] @ name @ [CHR 0x22]
        else ''argument value'') @
       (case message of
          None \<Rightarrow> []
        | Some m \<Rightarrow> if m \<noteq> [] then '': '' @ m else []))"

section \<open>The object store\<close>

text \<open>
  Token cells (the one-element arrays \<^verbatim>\<open>[boolean]\<close>), mutation contexts and persistent
  values are JavaScript objects: they have identity, are shared by reference and are
  updated in place. Each kind lives in its own store, addressed by a reference; the
  counters \<open>ntoks\<close>, \<open>nctxs\<close> and \<open>nvals\<close> are the next free references, so that
  \<^verbatim>\<open>new\<close> is an allocation at the counter.
\<close>

type_synonym tref = nat
type_synonym cref = nat
type_synonym vref = nat

text \<open>The class \<^verbatim>\<open>MutationContext\<close>: a reference to the shared token cell, and the
  scope, a JavaScript number that only ever holds integers.\<close>

record MutationContext =
  token :: tref
  scope :: int

text \<open>
  A persistent value: its context slot \<^verbatim>\<open>[mctxSym]\<close>, its own data (\<open>content\<close>) and
  its named child slots holding other persistent values (\<open>props\<close>).
\<close>

record 'a Persistent =
  mctx :: cref
  content :: 'a
  props :: "string \<rightharpoonup> vref"

record 'a heap =
  tokens :: "tref \<Rightarrow> bool"
  ntoks :: nat
  ctxs :: "cref \<Rightarrow> MutationContext"
  nctxs :: nat
  vals :: "vref \<Rightarrow> 'a Persistent"
  nvals :: nat

datatype PreferredContext = PCtx cref | PVal vref | PBool bool

text \<open>The first argument of \<^verbatim>\<open>modifyAsSubordinate\<close> and \<^verbatim>\<open>modifyAsEqual\<close>:
  \<^verbatim>\<open>Persistent | MutationContext\<close>; \<^verbatim>\<open>isMutationContext\<close> tells the two apart.\<close>

datatype ContextArg = AsContext cref | AsPersistent vref

definition new_token :: "bool \<Rightarrow> 'a heap \<Rightarrow> tref \<times> 'a heap" where
  "new_token b h =
     (ntoks h, h\<lparr>tokens := (tokens h)(ntoks h := b), ntoks := Suc (ntoks h)\<rparr>)"

definition new_MutationContext :: "tref \<Rightarrow> int \<Rightarrow> 'a heap \<Rightarrow> cref \<times> 'a heap" where
  "new_MutationContext t s h =
     (nctxs h, h\<lparr>ctxs := (ctxs h)(nctxs h := \<lparr>token = t, scope = s\<rparr>),
                 nctxs := Suc (nctxs h)\<rparr>)"

text \<open>
  \<^verbatim>\<open>export const Frozen = Object.freeze(new MutationContext([false], -1))\<close> is evaluated
  once, when the module is loaded, on the empty store: it is context 0 over token 0.
\<close>

definition Frozen :: cref where
  "Frozen = 0"

section \<open>The mutation-context module\<close>

definition getMutationContext :: "vref \<Rightarrow> 'a heap \<Rightarrow> cref" where
  "getMutationContext v h = mctx (vals h v)"

definition isMutableContext :: "cref \<Rightarrow> 'a heap \<Rightarrow> bool" where
  "isMutableContext c h = tokens h (token (ctxs h c))"

definition isImmutableContext :: "cref \<Rightarrow> 'a heap \<Rightarrow> bool" where
  "isImmutableContext c h = (\<not> isMutableContext c h)"

definition mutable :: "'a heap \<Rightarrow> cref \<times> 'a heap" where
  "mutable h = (let (t, h1) = new_token True h in new_MutationContext t 0 h1)"

definition immutable :: cref where
  "immutable = Frozen"

definition asSubordinateContext :: "cref \<Rightarrow> 'a heap \<Rightarrow> cref \<times> 'a heap" where
  "asSubordinateContext c h =
     (if scope (ctxs h c) \<ge> 0 then new_MutationContext (token (ctxs h c)) (- 1) h
      else (c, h))"

definition getSubordinateContext :: "vref \<Rightarrow> 'a heap \<Rightarrow> cref \<times> 'a heap" where
  "getSubordinateContext v h = asSubordinateContext (getMutationContext v h) h"

definition isPrimaryContext :: "cref \<Rightarrow> 'a heap \<Rightarrow> bool" where
  "isPrimaryContext c h = (scope (ctxs h c) \<ge> 0)"

definition isSubordinateContext :: "cref \<Rightarrow> 'a heap \<Rightarrow> bool" where
  "isSubordinateContext c h = (scope (ctxs h c) = - 1)"

definition close :: "cref \<Rightarrow> 'a heap \<Rightarrow> 'a heap" where
  "close c h = h\<lparr>tokens := (tokens h)(token (ctxs h c) := False)\<rparr>"

definition token_of :: "vref \<Rightarrow> 'a heap \<Rightarrow> tref" where
  "token_of v h = token (ctxs h (getMutationContext v h))"

definition incScope :: "cref \<Rightarrow> 'a heap \<Rightarrow> 'a heap" where
  "incScope c h = h\<lparr>ctxs := (ctxs h)(c := (ctxs h c)\<lparr>scope := scope (ctxs h c) + 1\<rparr>)\<rparr>"

definition decScope :: "cref \<Rightarrow> 'a heap \<Rightarrow> 'a heap" where
  "decScope c h = h\<lparr>ctxs := (ctxs h)(c := (ctxs h c)\<lparr>scope := scope (ctxs h c) - 1\<rparr>)\<rparr>"

definition isRelatedContext :: "cref \<Rightarrow> cref \<Rightarrow> 'a heap \<Rightarrow> bool" where
  "isRelatedContext a b h = (token (ctxs h a) = token (ctxs h b))"

definition commitContext :: "cref \<Rightarrow> 'a heap \<Rightarrow> 'a heap" where
  "commitContext c h = (if isPrimaryContext c h then close c h else h)"

definition isMutable :: "vref \<Rightarrow> 'a heap \<Rightarrow> bool" where
  "isMutable v h = isMutableContext (getMutationContext v h) h"

definition isImmutable :: "vref \<Rightarrow> 'a heap \<Rightarrow> bool" where
  "isImmutable v h = (\<not> isMutable v h)"

definition areContextsRelated :: "vref \<Rightarrow> vref \<Rightarrow> 'a heap \<Rightarrow> bool" where
  "areContextsRelated a b h = (token_of a h = token_of b h)"

definition hasRelatedContext :: "cref \<Rightarrow> vref \<Rightarrow> 'a heap \<Rightarrow> bool" where
  "hasRelatedContext c v h = (token (ctxs h c) = token_of v h)"

fun selectContext :: "PreferredContext option \<Rightarrow> 'a heap \<Rightarrow> cref \<times> 'a heap" where
  "selectContext None h = (Frozen, h)"
| "selectContext (Some (PBool b)) h = (if b then mutable h else (Frozen, h))"
| "selectContext (Some (PCtx c)) h = (if isMutableContext c h then (c, h) else (Frozen, h))"
| "selectContext (Some (PVal v)) h = getSubordinateContext v h"

text \<open>
  Modelled from the spec: the clone hook \<^verbatim>\<open>[cloneSym]\<close> is implemented by each concrete
  persistent structure, none of which is among the sources. The \<^verbatim>\<open>Persistent\<close> interface
  and the specification (section 3) fix its contract: given a target context, produce a
  shallow structural copy of the value carrying that context, retaining all internal
  properties as they are and cloning no owned substructure. It is a new object.
\<close>

definition cloneSym :: "vref \<Rightarrow> cref \<Rightarrow> 'a heap \<Rightarrow> vref \<times> 'a heap" where
  "cloneSym v c h =
     (nvals h, h\<lparr>vals := (vals h)(nvals h := (vals h v)\<lparr>mctx := c\<rparr>),
                 nvals := Suc (nvals h)\<rparr>)"

definition clone :: "vref \<Rightarrow> PreferredContext option \<Rightarrow> 'a heap \<Rightarrow> vref \<times> 'a heap" where
  "clone v pctx h = (let (c, h1) = selectContext pctx h in cloneSym v c h1)"

definition begin' :: "vref \<Rightarrow> 'a heap \<Rightarrow> vref \<times> 'a heap" where
  "begin' v h =
     (let mc = getMutationContext v h in
      if isMutableContext mc h then
        (if isSubordinateContext mc h then (v, h) else (v, incScope mc h))
      else (let (c, h1) = mutable h in clone v (Some (PCtx c)) h1))"

definition commit :: "vref \<Rightarrow> 'a heap \<Rightarrow> vref \<times> 'a heap" where
  "commit v h =
     (let mc = getMutationContext v h in
      (v, if isPrimaryContext mc h
          then (if scope (ctxs h mc) = 0 then close mc h else decScope mc h)
          else h))"

text \<open>The expression \<^verbatim>\<open>isMutationContext(context) ? context : getMutationContext(context)\<close>
  that opens \<^verbatim>\<open>modifyAsSubordinate\<close> and \<^verbatim>\<open>modifyAsEqual\<close>.\<close>

definition contextOf :: "ContextArg \<Rightarrow> 'a heap \<Rightarrow> cref" where
  "contextOf a h = (case a of AsContext c \<Rightarrow> c | AsPersistent p \<Rightarrow> getMutationContext p h)"

definition modifyAsSubordinate ::
  "ContextArg \<Rightarrow> vref \<Rightarrow> 'a heap \<Rightarrow> error + (vref \<times> 'a heap)" where
  "modifyAsSubordinate context v h =
     (let mctxChild = getMutationContext v h;
          mctxParent = contextOf context h in
      if isMutableContext mctxParent h then
        (if isRelatedContext mctxChild mctxParent h \<and> isSubordinateContext mctxChild h
         then Inr (v, h)
         else (let (c, h1) = asSubordinateContext mctxParent h
               in Inr (clone v (Some (PCtx c)) h1)))
      else throwArgumentError ''context''
             (Some ''The first argument must refer to a mutable object or mutation context''))"

definition modifyAsEqual ::
  "ContextArg \<Rightarrow> vref \<Rightarrow> 'a heap \<Rightarrow> error + (vref \<times> 'a heap)" where
  "modifyAsEqual context v h =
     (let mcChild = getMutationContext v h;
          mcParent = contextOf context h in
      if isMutableContext mcParent h then
        (if isRelatedContext mcChild mcParent h \<and>
            (isSubordinateContext mcParent h \<or> isPrimaryContext mcChild h)
         then Inr (v, h)
         else Inr (clone v (Some (PCtx mcParent)) h))
      else throwArgumentError ''context''
             (Some ''The first argument must refer to a mutable object or mutation context''))"

text \<open>
  \<^verbatim>\<open>modifyProperty\<close>: the type of \<^verbatim>\<open>parent\<close> promises that the slot \<^verbatim>\<open>name\<close> holds a
  persistent value. Were the slot absent, \<^verbatim>\<open>getMutationContext(undefined)\<close> would raise the
  runtime's TypeError.
\<close>

definition modifyProperty :: "vref \<Rightarrow> string \<Rightarrow> 'a heap \<Rightarrow> error + (vref \<times> 'a heap)" where
  "modifyProperty parent name h =
     (if isImmutable parent h
      then throwInvalidOperation ''Cannot modify properties of an immutable object''
      else (case props (vals h parent) name of
              None \<Rightarrow> Inl TypeError
            | Some child \<Rightarrow>
                if isRelatedContext (getMutationContext child h) (getMutationContext parent h) h
                then Inr (child, h)
                else (let (child', h1) = clone child (Some (PVal parent)) h
                      in Inr (child',
                              h1\<lparr>vals := (vals h1)(parent :=
                                    (vals h1 parent)\<lparr>props :=
                                       (props (vals h1 parent))(name \<mapsto> child')\<rparr>)\<rparr>))))"

definition withMutability :: "PreferredContext option \<Rightarrow> vref \<Rightarrow> 'a heap \<Rightarrow> vref \<times> 'a heap" where
  "withMutability pctx v h =
     (case pctx of
        None \<Rightarrow> cloneSym v Frozen h
      | Some (PBool b) \<Rightarrow>
          if b = isMutable v h then (v, h)
          else (let (c, h1) = (if b then mutable h else (Frozen, h)) in cloneSym v c h1)
      | Some (PCtx c) \<Rightarrow>
          if isRelatedContext c (getMutationContext v h) h then (v, h) else cloneSym v c h
      | Some (PVal p) \<Rightarrow>
          if areContextsRelated p v h then (v, h)
          else (let (c, h1) = getSubordinateContext p h in cloneSym v c h1))"

definition ensureContext :: "cref \<Rightarrow> vref \<Rightarrow> 'a heap \<Rightarrow> vref \<times> 'a heap" where
  "ensureContext c v h = (if getMutationContext v h = c then (v, h) else cloneSym v c h)"

text \<open>
  \<^verbatim>\<open>update(mutate, value)\<close>: the mutation procedure is any procedure on the store that is
  handed the reference of the value to work on. It either returns, leaving a store, or
  throws, and then the error comes with the store as it was at the throw. \<^verbatim>\<open>update\<close> has
  no \<^verbatim>\<open>try\<close>: when the procedure throws, the error propagates and \<^verbatim>\<open>commit\<close> is not
  reached.
\<close>

definition update ::
  "(vref \<Rightarrow> 'a heap \<Rightarrow> (error \<times> 'a heap) + 'a heap) \<Rightarrow> vref \<Rightarrow> 'a heap \<Rightarrow>
   (error \<times> 'a heap) + (vref \<times> 'a heap)" where
  "update mutate v h =
     (let (w, h1) = begin' v h in
      case mutate w h1 of
        Inl (e, h2) \<Rightarrow> Inl (e, h2)
      | Inr h2 \<Rightarrow> Inr (commit w h2))"

text \<open>
  \<^verbatim>\<open>isPersistentConstructor(value: Function)\<close> reads \<^verbatim>\<open>value.prototype[cloneSym]\<close>. All it
  sees of a function object is its \<^verbatim>\<open>prototype\<close> property: \<^verbatim>\<open>undefined\<close> for an arrow
  function, a method or a bound function, \<^verbatim>\<open>null\<close> if so assigned, or an object, of which
  only \<^verbatim>\<open>typeof\<close> of the \<^verbatim>\<open>[cloneSym]\<close> member matters. Reading a member of \<^verbatim>\<open>undefined\<close>
  or \<^verbatim>\<open>null\<close> raises the runtime's TypeError.
\<close>

datatype prototype_slot = Undefined | Null | PrototypeObject string

record jsfunction =
  prototype :: prototype_slot

definition isPersistentConstructor :: "jsfunction \<Rightarrow> error + bool" where
  "isPersistentConstructor f =
     (case prototype f of
        Undefined \<Rightarrow> Inl TypeError
      | Null \<Rightarrow> Inl TypeError
      | PrototypeObject typeof_clone \<Rightarrow> Inr (typeof_clone = ''function''))"

section \<open>Well-formed stores\<close>

text \<open>
  A JavaScript reference never dangles, a context built by this module has scope \<open>-1\<close>
  or a nesting depth \<open>\<ge> 0\<close>, and the frozen context \<open>Frozen\<close> (scope \<open>-1\<close>, token
  \<^verbatim>\<open>false\<close>) can never be written: \<^verbatim>\<open>Object.freeze\<close> fixes its fields, and no operation
  sets a token cell to \<^verbatim>\<open>true\<close>.
\<close>

definition valid_heap :: "'a heap \<Rightarrow> bool" where
  "valid_heap h \<longleftrightarrow>
     Frozen < nctxs h \<and> scope (ctxs h Frozen) = - 1 \<and> \<not> tokens h (token (ctxs h Frozen)) \<and>
     (\<forall>c < nctxs h. token (ctxs h c) < ntoks h \<and> - 1 \<le> scope (ctxs h c)) \<and>
     (\<forall>v < nvals h. mctx (vals h v) < nctxs h \<and>
        (\<forall>n c. props (vals h v) n = Some c \<longrightarrow> c < nvals h))"

definition valid_arg :: "ContextArg \<Rightarrow> 'a heap \<Rightarrow> bool" where
  "valid_arg a h = (case a of AsContext c \<Rightarrow> c < nctxs h | AsPersistent p \<Rightarrow> p < nvals h)"

section \<open>Scenarios\<close>

text \<open>The sequence \<^verbatim>\<open>begin(commit(begin(v)))\<close>.\<close>

definition begin_commit_begin :: "vref \<Rightarrow> 'a heap \<Rightarrow> vref \<times> 'a heap" where
  "begin_commit_begin v h =
     (let (a, h1) = begin' v h; (b, h2) = commit a h1 in begin' b h2)"

text \<open>Mutation procedures for \<^verbatim>\<open>update\<close>: \<^verbatim>\<open>(x) => { begin(x) }\<close>, which enters the
  batch once more and does not leave it, and \<^verbatim>\<open>(x) => { throw new Error() }\<close>.\<close>

definition reenter :: "vref \<Rightarrow> 'a heap \<Rightarrow> (error \<times> 'a heap) + 'a heap" where
  "reenter w h = Inr (snd (begin' w h))"

definition throw_error :: "vref \<Rightarrow> 'a heap \<Rightarrow> (error \<times> 'a heap) + 'a heap" where
  "throw_error w h = Inl (Error [], h)"

text \<open>An arrow function: it has no \<^verbatim>\<open>prototype\<close>.\<close>

definition arrow_function :: jsfunction where
  "arrow_function = \<lparr>prototype = Undefined\<rparr>"

text \<open>
  A store with the frozen context (context 0, token 0), an open batch on token 1 owned
  by value 1 (context 1, scope 0) and joined by values 2 and 4, which share the
  subordinate context 2, a second batch on token 2 owned by value 3 at nesting depth 2,
  and the immutable value 0. Value 1 has the slots \<^verbatim>\<open>left\<close> (value 2, of its batch) and
  \<^verbatim>\<open>right\<close> (value 0, immutable).
\<close>

definition example_heap :: "nat heap" where
  "example_heap =
     \<lparr>tokens = (\<lambda>_. False)(1 := True, 2 := True), ntoks = 3,
      ctxs = (\<lambda>_. \<lparr>token = 0, scope = - 1\<rparr>)
               (1 := \<lparr>token = 1, scope = 0\<rparr>, 2 := \<lparr>token = 1, scope = - 1\<rparr>,
                3 := \<lparr>token = 2, scope = 2\<rparr>),
      nctxs = 4,
      vals = (\<lambda>_. \<lparr>mctx = 0, content = 10, props = Map.empty\<rparr>)
               (1 := \<lparr>mctx = 1, content = 11, props = [''left'' \<mapsto> 2, ''right'' \<mapsto> 0]\<rparr>,
                2 := \<lparr>mctx = 2, content = 12, props = Map.empty\<rparr>,
                3 := \<lparr>mctx = 3, content = 13, props = Map.empty\<rparr>,
                4 := \<lparr>mctx = 2, content = 14, props = Map.empty\<rparr>),
      nvals = 5\<rparr>"

section \<open>Red-black tree nodes (Persistent/RedBlackTree/index.ts)\<close>

text \<open>
  Nodes are objects too: \<^verbatim>\<open>new Node(...)\<close> allocates, and the constructor's
  \<^verbatim>\<open>this.left = left || this\<close> stores the node's own reference when no child is passed
  (a node object is always truthy). The key and the value of the sentinel are
  \<^verbatim>\<open>undefined\<close>, the \<open>None\<close> of the option type.
\<close>

type_synonym nref = nat

record ('k, 'v) Node =
  editable :: bool
  key :: "'k option"
  value' :: "'v option"
  red :: bool
  count :: int
  left :: nref
  right :: nref

record ('k, 'v) nheap =
  nodes :: "nref \<rightharpoonup> ('k, 'v) Node"
  nnodes :: nat

record 'o RedBlackTree =
  tag :: string
  tree_editable :: bool
  ord :: 'o
  root :: nref
  tree_size :: int

definition new_Node ::
  "bool \<Rightarrow> 'k option \<Rightarrow> 'v option \<Rightarrow> bool \<Rightarrow> int \<Rightarrow> nref option \<Rightarrow> nref option \<Rightarrow>
   ('k, 'v) nheap \<Rightarrow> nref \<times> ('k, 'v) nheap" where
  "new_Node e k v r c l_opt r_opt h =
     (let this = nnodes h in
      (this,
       h\<lparr>nodes := (nodes h)(this \<mapsto>
            \<lparr>editable = e, key = k, value' = v, red = r, count = c,
             left = (case l_opt of Some l \<Rightarrow> l | None \<Rightarrow> this),
             right = (case r_opt of Some r' \<Rightarrow> r' | None \<Rightarrow> this)\<rparr>),
         nnodes := Suc this\<rparr>))"

definition new_RedBlackTree :: "bool \<Rightarrow> 'o \<Rightarrow> nref \<Rightarrow> int \<Rightarrow> 'o RedBlackTree" where
  "new_RedBlackTree e o' r s =
     \<lparr>tag = ''RedBlackTree'', tree_editable = e, ord = o', root = r, tree_size = s\<rparr>"

text \<open>\<^verbatim>\<open>export const None = new Node<any, any>(true, undefined, undefined, false, 0)\<close> is
  evaluated when the module is loaded, on the empty node store.\<close>

definition empty_nodes :: "('k, 'v) nheap" where
  "empty_nodes = \<lparr>nodes = Map.empty, nnodes = 0\<rparr>"

definition None_Node :: nref where
  "None_Node = fst (new_Node True None None False 0 None None (empty_nodes :: (unit, unit) nheap))"

definition module_nodes :: "('k, 'v) nheap" where
  "module_nodes = snd (new_Node True None None False 0 None None empty_nodes)"

definition make :: "'o \<Rightarrow> 'o RedBlackTree" where
  "make o' = new_RedBlackTree False o' None_Node 0"

definition makeNode ::
  "'o RedBlackTree \<Rightarrow> bool \<Rightarrow> 'k \<Rightarrow> 'v \<Rightarrow> ('k, 'v) nheap \<Rightarrow> nref \<times> ('k, 'v) nheap" where
  "makeNode tree r k v h =
     new_Node (tree_editable tree) (Some k) (Some v) r 1 (Some None_Node) (Some None_Node) h"

section \<open>Unfolding rules\<close>

lemmas ctx_defs =
  getMutationContext_def isMutableContext_def isImmutableContext_def isPrimaryContext_def
  isSubordinateContext_def isRelatedContext_def isMutable_def isImmutable_def token_of_def
  areContextsRelated_def hasRelatedContext_def

lemmas alloc_defs =
  new_token_def new_MutationContext_def mutable_def cloneSym_def asSubordinateContext_def
  getSubordinateContext_def clone_def

lemma example_heap_simps:
  "ntoks example_heap = 3" "nctxs example_heap = 4" "nvals example_heap = 5"
  "tokens example_heap 0 = False" "tokens example_heap (Suc 0) = True"
  "tokens example_heap 2 = True"
  "ctxs example_heap 0 = \<lparr>token = 0, scope = - 1\<rparr>"
  "ctxs example_heap (Suc 0) = \<lparr>token = 1, scope = 0\<rparr>"
  "ctxs example_heap 2 = \<lparr>token = 1, scope = - 1\<rparr>"
  "ctxs example_heap 3 = \<lparr>token = 2, scope = 2\<rparr>"
  "vals example_heap 0 = \<lparr>mctx = 0, content = 10, props = Map.empty\<rparr>"
  "vals example_heap (Suc 0) =
     \<lparr>mctx = 1, content = 11, props = [''left'' \<mapsto> 2, ''right'' \<mapsto> 0]\<rparr>"
  "vals example_heap 2 = \<lparr>mctx = 2, content = 12, props = Map.empty\<rparr>"
  "vals example_heap 3 = \<lparr>mctx = 3, content = 13, props = Map.empty\<rparr>"
  "vals example_heap 4 = \<lparr>mctx = 2, content = 14, props = Map.empty\<rparr>"
  by (simp_all add: example_heap_def)

lemma valid_example: "valid_heap example_heap"
  by (auto simp: valid_heap_def example_heap_def Frozen_def less_Suc_eq numeral_eq_Suc
      split: if_splits)

lemma begin_example_0:
  "begin' 0 example_heap =
      (5, example_heap\<lparr>tokens := (tokens example_heap)(3 := True), ntoks := 4,
            ctxs := (ctxs example_heap)(4 := \<lparr>token = 3, scope = 0\<rparr>), nctxs := 5,
            vals := (vals example_heap)(5 := (vals example_heap 0)\<lparr>mctx := 4\<rparr>),
            nvals := 6\<rparr>)"
  by (simp add: begin'_def ctx_defs alloc_defs Let_def example_heap_simps)

section \<open>Well-formedness is an invariant\<close>

text \<open>
  Every operation that writes the store takes a well-formed store to a well-formed one.
  In particular the frozen context keeps scope \<open>-1\<close> and a \<^verbatim>\<open>false\<close> token: it is neither
  primary nor mutable, so \<^verbatim>\<open>incScope\<close>, \<^verbatim>\<open>decScope\<close> and \<^verbatim>\<open>close\<close> are never applied to it.
\<close>

lemma valid_heap_begin:
  "valid_heap h \<Longrightarrow> v < nvals h \<Longrightarrow> valid_heap (snd (begin' v h))"
  by (auto simp: valid_heap_def begin'_def incScope_def ctx_defs alloc_defs Let_def Frozen_def less_Suc_eq)

lemma valid_heap_commit:
  "valid_heap h \<Longrightarrow> valid_heap (snd (commit v h))"
  by (auto simp: valid_heap_def commit_def close_def decScope_def ctx_defs Let_def Frozen_def)

lemma valid_heap_cloneSym:
  "valid_heap h \<Longrightarrow> v < nvals h \<Longrightarrow> c < nctxs h \<Longrightarrow> valid_heap (snd (cloneSym v c h))"
  by (auto simp: valid_heap_def cloneSym_def less_Suc_eq)

lemma valid_heap_asSubordinateContext:
  "valid_heap h \<Longrightarrow> c < nctxs h \<Longrightarrow>
   valid_heap (snd (asSubordinateContext c h)) \<and>
   fst (asSubordinateContext c h) < nctxs (snd (asSubordinateContext c h)) \<and>
   nvals (snd (asSubordinateContext c h)) = nvals h"
  by (auto simp: valid_heap_def asSubordinateContext_def new_MutationContext_def Frozen_def
      less_Suc_eq)

lemma valid_heap_modifyAsEqual:
  assumes "valid_heap h" "valid_arg ctx h" "v < nvals h"
    and "modifyAsEqual ctx v h = Inr (w, h')"
  shows "valid_heap h' \<and> w < nvals h'"
proof -
  have c: "contextOf ctx h < nctxs h"
    using assms(1,2) by (auto simp: contextOf_def valid_arg_def valid_heap_def ctx_defs
        split: ContextArg.splits)
  show ?thesis
    using assms c valid_heap_cloneSym [of h v "contextOf ctx h"]
    by (auto simp: modifyAsEqual_def clone_def Let_def cloneSym_def throwArgumentError_def
        throwError_def split: if_splits)
qed

lemma valid_heap_modifyAsSubordinate:
  assumes "valid_heap h" "valid_arg ctx h" "v < nvals h"
    and "modifyAsSubordinate ctx v h = Inr (w, h')"
  shows "valid_heap h' \<and> w < nvals h'"
proof -
  have c: "contextOf ctx h < nctxs h"
    using assms(1,2) by (auto simp: contextOf_def valid_arg_def valid_heap_def ctx_defs
        split: ContextArg.splits)
  obtain s h1 where a: "asSubordinateContext (contextOf ctx h) h = (s, h1)"
    by (cases "asSubordinateContext (contextOf ctx h) h")
  from valid_heap_asSubordinateContext [OF assms(1) c] a
  have h1: "valid_heap h1" "s < nctxs h1" "nvals h1 = nvals h"
    by simp_all
  have m: "isMutableContext (contextOf ctx h) h \<Longrightarrow> isMutableContext s h1"
    using a c assms(1)
    by (auto simp: asSubordinateContext_def new_MutationContext_def ctx_defs valid_heap_def
        split: if_splits)
  show ?thesis
    using assms a h1 m valid_heap_cloneSym [of h1 v s]
    by (auto simp: modifyAsSubordinate_def clone_def Let_def cloneSym_def throwArgumentError_def
        throwError_def split: if_splits)
qed

lemma valid_heap_modifyProperty:
  assumes "valid_heap h" "parent < nvals h"
    and "modifyProperty parent name h = Inr (w, h')"
  shows "valid_heap h' \<and> w < nvals h'"
proof -
  from assms obtain child where ch: "props (vals h parent) name = Some child"
    by (auto simp: modifyProperty_def throwInvalidOperation_def throwError_def
        split: if_splits option.splits)
  have cv: "child < nvals h" and pc: "mctx (vals h parent) < nctxs h"
    using assms(1,2) ch by (auto simp: valid_heap_def)
  obtain s h1 where a: "asSubordinateContext (mctx (vals h parent)) h = (s, h1)"
    by (cases "asSubordinateContext (mctx (vals h parent)) h")
  from valid_heap_asSubordinateContext [OF assms(1) pc] a
  have h1: "valid_heap h1" "s < nctxs h1" "nvals h1 = nvals h"
    by simp_all
  have v2: "valid_heap (snd (cloneSym child s h1))"
    using valid_heap_cloneSym [of h1 child s] h1 cv by simp
  have wb: "valid_heap (g\<lparr>vals := (vals g)(parent :=
        (vals g parent)\<lparr>props := (props (vals g parent))(name \<mapsto> c')\<rparr>)\<rparr>)"
    if "valid_heap g" "parent < nvals g" "c' < nvals g" for g :: "'a heap" and c'
    using that by (auto simp: valid_heap_def)
  show ?thesis
    using assms ch a h1 cv v2
      wb [of "snd (cloneSym child s h1)" "nvals h"]
    by (auto simp: modifyProperty_def clone_def getSubordinateContext_def getMutationContext_def
        Let_def cloneSym_def throwInvalidOperation_def throwError_def split: if_splits)
qed

section \<open>commit\<close>

text \<open>
  Claim C1. \<^verbatim>\<open>commit(v)\<close> returns the reference \<open>v\<close> itself and allocates no value: the
  store of values is the same afterwards. If the context of \<open>v\<close> is primary with scope 0,
  the only change to the store is that the token cell of \<open>v\<close> becomes \<^verbatim>\<open>false\<close>; after this
  single write every context that holds the same token cell is immutable and every value
  related to \<open>v\<close> reports \<open>isImmutable\<close>, although neither those values nor their contexts
  were written. If the context is primary with scope \<open>> 0\<close>, the only change is that its
  scope is decremented. If the context is subordinate, the store is unchanged.
\<close>
theorem commit_returns_value_and_freezes_batch:
  "fst (commit v h) = v
   \<and> vals (snd (commit v h)) = vals h \<and> nvals (snd (commit v h)) = nvals h
   \<and> (isPrimaryContext (getMutationContext v h) h \<and> scope (ctxs h (getMutationContext v h)) = 0 \<longrightarrow>
        snd (commit v h) = h\<lparr>tokens := (tokens h)(token_of v h := False)\<rparr>
        \<and> (\<forall>c. isRelatedContext c (getMutationContext v h) h \<longrightarrow> isImmutableContext c (snd (commit v h)))
        \<and> (\<forall>w. areContextsRelated w v h \<longrightarrow> isImmutable w (snd (commit v h))))
   \<and> (isPrimaryContext (getMutationContext v h) h \<and> scope (ctxs h (getMutationContext v h)) > 0 \<longrightarrow>
        snd (commit v h) =
          h\<lparr>ctxs := (ctxs h)(getMutationContext v h :=
                (ctxs h (getMutationContext v h))\<lparr>scope := scope (ctxs h (getMutationContext v h)) - 1\<rparr>)\<rparr>)
   \<and> (isSubordinateContext (getMutationContext v h) h \<longrightarrow> snd (commit v h) = h)"
  by (auto simp: commit_def close_def decScope_def ctx_defs Let_def)

theorem commit_returns_value_and_freezes_batch_witness:
  "fst (commit 1 example_heap) = 1
   \<and> isMutable 2 example_heap \<and> isMutable 4 example_heap
   \<and> isImmutable 2 (snd (commit 1 example_heap))
   \<and> isImmutable 4 (snd (commit 1 example_heap))
   \<and> vals (snd (commit 1 example_heap)) = vals example_heap
   \<and> ctxs (snd (commit 1 example_heap)) = ctxs example_heap
   \<and> scope (ctxs (snd (commit 3 example_heap)) 3) = 1
   \<and> isMutable 3 (snd (commit 3 example_heap))
   \<and> snd (commit 2 example_heap) = example_heap"
proof -
  have own: "isPrimaryContext (getMutationContext 1 example_heap) example_heap
      \<and> scope (ctxs example_heap (getMutationContext 1 example_heap)) = 0"
    by (simp add: ctx_defs example_heap_simps)
  have joined: "areContextsRelated 2 1 example_heap \<and> areContextsRelated 4 1 example_heap
      \<and> isMutable 2 example_heap \<and> isMutable 4 example_heap"
    by (simp add: ctx_defs example_heap_simps)
  have nested: "isPrimaryContext (getMutationContext 3 example_heap) example_heap
      \<and> scope (ctxs example_heap (getMutationContext 3 example_heap)) > 0
      \<and> getMutationContext 3 example_heap = 3
      \<and> scope (ctxs example_heap 3) = 2 \<and> tokens example_heap (token (ctxs example_heap 3))"
    by (simp add: ctx_defs example_heap_simps)
  have sub: "isSubordinateContext (getMutationContext 2 example_heap) example_heap"
    by (simp add: ctx_defs example_heap_simps)
  from commit_returns_value_and_freezes_batch [of 1 example_heap] own joined
  have 1: "fst (commit 1 example_heap) = 1
      \<and> isImmutable 2 (snd (commit 1 example_heap))
      \<and> isImmutable 4 (snd (commit 1 example_heap))
      \<and> vals (snd (commit 1 example_heap)) = vals example_heap"
    by blast
  from commit_returns_value_and_freezes_batch [of 1 example_heap] own
  have "snd (commit 1 example_heap) =
      example_heap\<lparr>tokens := (tokens example_heap)(token_of 1 example_heap := False)\<rparr>"
    by blast
  then have frame: "ctxs (snd (commit 1 example_heap)) = ctxs example_heap"
    by simp
  from commit_returns_value_and_freezes_batch [of 3 example_heap] nested
  have "snd (commit 3 example_heap) =
      example_heap\<lparr>ctxs := (ctxs example_heap)(getMutationContext 3 example_heap :=
        (ctxs example_heap (getMutationContext 3 example_heap))
          \<lparr>scope := scope (ctxs example_heap (getMutationContext 3 example_heap)) - 1\<rparr>)\<rparr>"
    by blast
  with nested
  have 2: "scope (ctxs (snd (commit 3 example_heap)) 3) = 1
      \<and> isMutable 3 (snd (commit 3 example_heap))"
    by (simp add: ctx_defs)
  from commit_returns_value_and_freezes_batch [of 2 example_heap] sub
  have 3: "snd (commit 2 example_heap) = example_heap"
    by blast
  from joined 1 frame 2 3 show ?thesis by simp
qed

section \<open>begin\<close>

text \<open>
  Claim C2. If the context of \<open>v\<close> is mutable and subordinate, \<^verbatim>\<open>begin(v)\<close> returns \<open>v\<close>
  and leaves the store as it is. If it is mutable and primary, \<^verbatim>\<open>begin(v)\<close> returns the
  same reference \<open>v\<close> and the only change is that the scope of that context is incremented
  by one. If \<open>v\<close> is immutable, \<^verbatim>\<open>begin(v)\<close> returns a new reference holding a copy of \<open>v\<close>
  whose context is newly allocated, with a newly allocated token cell set to \<^verbatim>\<open>true\<close> and
  scope 0; every object that was in the store is left as it was, so in a well-formed
  store \<open>v\<close>, its context and its token are untouched and \<open>v\<close> is still immutable.
\<close>
theorem begin_by_cases:
  "(isMutable v h \<and> isSubordinateContext (getMutationContext v h) h \<longrightarrow> begin' v h = (v, h))
   \<and> (isMutable v h \<and> isPrimaryContext (getMutationContext v h) h \<longrightarrow>
        begin' v h =
          (v, h\<lparr>ctxs := (ctxs h)(getMutationContext v h :=
                 (ctxs h (getMutationContext v h))\<lparr>scope := scope (ctxs h (getMutationContext v h)) + 1\<rparr>)\<rparr>))
   \<and> (isImmutable v h \<longrightarrow>
        (let w = fst (begin' v h); h' = snd (begin' v h) in
           w = nvals h \<and> nvals h' = Suc (nvals h)
           \<and> vals h' w = (vals h v)\<lparr>mctx := nctxs h\<rparr>
           \<and> nctxs h' = Suc (nctxs h) \<and> ctxs h' (nctxs h) = \<lparr>token = ntoks h, scope = 0\<rparr>
           \<and> ntoks h' = Suc (ntoks h) \<and> tokens h' (ntoks h)
           \<and> isMutable w h' \<and> isPrimaryContext (getMutationContext w h') h'
           \<and> (\<forall>u < nvals h. vals h' u = vals h u)
           \<and> (\<forall>c < nctxs h. ctxs h' c = ctxs h c)
           \<and> (\<forall>t < ntoks h. tokens h' t = tokens h t)
           \<and> (valid_heap h \<and> v < nvals h \<longrightarrow>
                 w \<noteq> v \<and> vals h' v = vals h v
                 \<and> ctxs h' (getMutationContext v h') = ctxs h (getMutationContext v h)
                 \<and> tokens h' (token_of v h') = tokens h (token_of v h)
                 \<and> isImmutable v h')))"
  by (auto simp: begin'_def incScope_def ctx_defs alloc_defs Let_def valid_heap_def)

theorem begin_by_cases_witness:
  "begin' 2 example_heap = (2, example_heap)
   \<and> scope (ctxs (snd (begin' 3 example_heap)) 3) = 3
   \<and> fst (begin' 3 example_heap) = 3
   \<and> fst (begin' 0 example_heap) = 5
   \<and> vals (snd (begin' 0 example_heap)) 5 = \<lparr>mctx = 4, content = 10, props = Map.empty\<rparr>
   \<and> ctxs (snd (begin' 0 example_heap)) 4 = \<lparr>token = 3, scope = 0\<rparr>
   \<and> tokens (snd (begin' 0 example_heap)) 3
   \<and> vals (snd (begin' 0 example_heap)) 0 = vals example_heap 0
   \<and> isImmutable 0 (snd (begin' 0 example_heap))"
proof -
  have sub: "isMutable 2 example_heap \<and> isSubordinateContext (getMutationContext 2 example_heap) example_heap"
    by (simp add: ctx_defs example_heap_simps)
  have prim: "isMutable 3 example_heap \<and> isPrimaryContext (getMutationContext 3 example_heap) example_heap"
    by (simp add: ctx_defs example_heap_simps)
  have imm: "isImmutable 0 example_heap"
    by (simp add: ctx_defs example_heap_simps)
  have ok: "valid_heap example_heap \<and> 0 < nvals example_heap"
    by (simp add: valid_example example_heap_simps)
  from begin_by_cases [of 2 example_heap] sub
  have 1: "begin' 2 example_heap = (2, example_heap)" by simp
  from begin_by_cases [of 3 example_heap] prim
  have 2: "scope (ctxs (snd (begin' 3 example_heap)) 3) = 3 \<and> fst (begin' 3 example_heap) = 3"
    by (simp add: ctx_defs example_heap_simps)
  from begin_by_cases [of 0 example_heap] imm ok
  have 3: "fst (begin' 0 example_heap) = 5
   \<and> vals (snd (begin' 0 example_heap)) 5 = \<lparr>mctx = 4, content = 10, props = Map.empty\<rparr>
   \<and> ctxs (snd (begin' 0 example_heap)) 4 = \<lparr>token = 3, scope = 0\<rparr>
   \<and> tokens (snd (begin' 0 example_heap)) 3
   \<and> vals (snd (begin' 0 example_heap)) 0 = vals example_heap 0
   \<and> isImmutable 0 (snd (begin' 0 example_heap))"
    by (auto simp add: Let_def example_heap_simps)
  from 1 2 3 show ?thesis by simp
qed

text \<open>
  Claim C9. Applying \<^verbatim>\<open>begin\<close> to the result of \<^verbatim>\<open>begin(v)\<close>, with no commit in between,
  returns the very same reference: the result of \<^verbatim>\<open>begin\<close> is always mutable, and when its
  context is primary the second call only increments the scope of that context.
\<close>
theorem begin_idempotent:
  "fst (begin' (fst (begin' v h)) (snd (begin' v h))) = fst (begin' v h)
   \<and> isMutable (fst (begin' v h)) (snd (begin' v h))
   \<and> (isPrimaryContext (getMutationContext (fst (begin' v h)) (snd (begin' v h))) (snd (begin' v h)) \<longrightarrow>
        snd (begin' (fst (begin' v h)) (snd (begin' v h))) =
          incScope (getMutationContext (fst (begin' v h)) (snd (begin' v h))) (snd (begin' v h)))"
  by (auto simp: begin'_def incScope_def ctx_defs alloc_defs Let_def)

theorem begin_idempotent_witness:
  "fst (begin' 0 example_heap) = 5
   \<and> fst (begin' (fst (begin' 0 example_heap)) (snd (begin' 0 example_heap))) = 5
   \<and> scope (ctxs (snd (begin' 0 example_heap)) 4) = 0
   \<and> scope (ctxs (snd (begin' (fst (begin' 0 example_heap)) (snd (begin' 0 example_heap)))) 4) = 1"
proof -
  note a = begin_example_0
  have b: "isPrimaryContext (getMutationContext (fst (begin' 0 example_heap))
             (snd (begin' 0 example_heap))) (snd (begin' 0 example_heap))"
    by (simp add: a ctx_defs)
  from begin_idempotent [of 0 example_heap] b show ?thesis
    by (simp add: a incScope_def ctx_defs)
qed

section \<open>Round trip through a batch\<close>

text \<open>
  Claim C4, as amended. The value produced by \<^verbatim>\<open>begin(commit(begin(v)))\<close> has the data and
  the child slots of \<open>v\<close>, and it is mutable, never frozen: the last \<^verbatim>\<open>begin\<close> opens a batch
  again. It is the intermediate value \<^verbatim>\<open>commit(begin(v))\<close> that is frozen, with the data of
  \<open>v\<close>, when \<open>v\<close> started immutable.
\<close>
theorem roundtrip_amended:
  "content (vals (snd (begin_commit_begin v h)) (fst (begin_commit_begin v h))) = content (vals h v)
   \<and> props (vals (snd (begin_commit_begin v h)) (fst (begin_commit_begin v h))) = props (vals h v)
   \<and> isMutable (fst (begin_commit_begin v h)) (snd (begin_commit_begin v h))
   \<and> (isImmutable v h \<longrightarrow>
         isImmutable (fst (commit (fst (begin' v h)) (snd (begin' v h))))
                     (snd (commit (fst (begin' v h)) (snd (begin' v h))))
         \<and> content (vals (snd (commit (fst (begin' v h)) (snd (begin' v h))))
                           (fst (commit (fst (begin' v h)) (snd (begin' v h))))) = content (vals h v))"
  by (auto simp: begin_commit_begin_def begin'_def commit_def close_def decScope_def incScope_def ctx_defs alloc_defs Let_def)

theorem roundtrip_amended_witness:
  "isMutable (fst (begin_commit_begin 0 example_heap)) (snd (begin_commit_begin 0 example_heap))
   \<and> content (vals (snd (begin_commit_begin 0 example_heap))
                (fst (begin_commit_begin 0 example_heap))) = 10
   \<and> isImmutable (fst (commit (fst (begin' 0 example_heap)) (snd (begin' 0 example_heap))))
                 (snd (commit (fst (begin' 0 example_heap)) (snd (begin' 0 example_heap))))"
proof -
  have imm: "isImmutable 0 example_heap \<and> content (vals example_heap 0) = 10"
    by (simp add: ctx_defs example_heap_simps)
  from roundtrip_amended [of 0 example_heap] imm show ?thesis by simp
qed

text \<open>The claim as stated fails: started from the immutable value 0, the sequence ends in
  a value that is not immutable.\<close>

theorem roundtrip_counterexample:
  "isImmutable 0 example_heap
   \<and> \<not> isImmutable (fst (begin_commit_begin 0 example_heap)) (snd (begin_commit_begin 0 example_heap))"
  by (simp add: begin_commit_begin_def begin'_def commit_def close_def decScope_def incScope_def ctx_defs alloc_defs Let_def example_heap_def)

section \<open>modifyAsSubordinate\<close>

text \<open>
  Claim C7. When the context (or the context of the owner) passed first is mutable,
  \<^verbatim>\<open>modifyAsSubordinate\<close> succeeds, and it returns \<open>v\<close> itself if and only if the context of
  \<open>v\<close> is subordinate and shares the owner's token; the store is then unchanged. Otherwise
  it returns a new reference holding a copy of \<open>v\<close> whose context is subordinate (scope
  \<open>-1\<close>) and holds the owner's token, while \<open>v\<close> and every other object that was in the
  store are left as they were.
\<close>
theorem modifyAsSubordinate_success:
  "isMutableContext (contextOf ctx h) h \<and> valid_heap h \<and> valid_arg ctx h \<and> v < nvals h \<longrightarrow>
     (\<exists>w h'. modifyAsSubordinate ctx v h = Inr (w, h')
        \<and> (w = v \<longleftrightarrow>
             isSubordinateContext (getMutationContext v h) h
             \<and> isRelatedContext (getMutationContext v h) (contextOf ctx h) h)
        \<and> (w = v \<longrightarrow> h' = h)
        \<and> (w \<noteq> v \<longrightarrow>
             w = nvals h \<and> nvals h' = Suc (nvals h)
             \<and> vals h' w = (vals h v)\<lparr>mctx := getMutationContext w h'\<rparr>
             \<and> isSubordinateContext (getMutationContext w h') h'
             \<and> scope (ctxs h' (getMutationContext w h')) = - 1
             \<and> isRelatedContext (getMutationContext w h') (contextOf ctx h) h'
             \<and> token (ctxs h' (getMutationContext w h')) = token (ctxs h (contextOf ctx h))
             \<and> isMutable w h'
             \<and> vals h' v = vals h v
             \<and> (\<forall>u < nvals h. vals h' u = vals h u)
             \<and> (\<forall>c < nctxs h. ctxs h' c = ctxs h c)
             \<and> tokens h' = tokens h))"
  by (auto simp: modifyAsSubordinate_def contextOf_def valid_arg_def valid_heap_def ctx_defs alloc_defs Let_def
      split: ContextArg.splits prod.splits)

theorem modifyAsSubordinate_success_witness:
  "modifyAsSubordinate (AsPersistent 1) 2 example_heap = Inr (2, example_heap)
   \<and> (\<exists>h'. modifyAsSubordinate (AsPersistent 1) 0 example_heap = Inr (5, h')
          \<and> content (vals h' 5) = 10
          \<and> scope (ctxs h' (getMutationContext 5 h')) = - 1
          \<and> token (ctxs h' (getMutationContext 5 h')) = 1
          \<and> isMutable 5 h')"
proof -
  have pre: "isMutableContext (contextOf (AsPersistent 1) example_heap) example_heap
      \<and> valid_heap example_heap \<and> valid_arg (AsPersistent 1) example_heap"
    by (simp add: valid_example contextOf_def valid_arg_def ctx_defs example_heap_simps)
  have a: "2 < nvals example_heap
      \<and> isSubordinateContext (getMutationContext 2 example_heap) example_heap
      \<and> isRelatedContext (getMutationContext 2 example_heap)
            (contextOf (AsPersistent 1) example_heap) example_heap"
    by (simp add: contextOf_def ctx_defs example_heap_simps)
  have b: "0 < nvals example_heap
      \<and> \<not> isSubordinateContext (getMutationContext 0 example_heap) example_heap
          \<or> \<not> isRelatedContext (getMutationContext 0 example_heap)
            (contextOf (AsPersistent 1) example_heap) example_heap"
    by (simp add: contextOf_def ctx_defs example_heap_simps)
  have c: "content (vals example_heap 0) = 10 \<and> nvals example_heap = 5
      \<and> token (ctxs example_heap (contextOf (AsPersistent 1) example_heap)) = 1"
    by (simp add: contextOf_def ctx_defs example_heap_simps)
  from modifyAsSubordinate_success [of "AsPersistent 1" example_heap 2] pre a
  have 1: "modifyAsSubordinate (AsPersistent 1) 2 example_heap = Inr (2, example_heap)"
    by auto
  from modifyAsSubordinate_success [of "AsPersistent 1" example_heap 0] pre b c
  have 2: "\<exists>h'. modifyAsSubordinate (AsPersistent 1) 0 example_heap = Inr (5, h')
          \<and> content (vals h' 5) = 10
          \<and> scope (ctxs h' (getMutationContext 5 h')) = - 1
          \<and> token (ctxs h' (getMutationContext 5 h')) = 1
          \<and> isMutable 5 h'"
    by (auto simp: example_heap_simps)
  from 1 2 show ?thesis by simp
qed

section \<open>modifyAsEqual\<close>

text \<open>
  Claim C3, as amended. When the context (or the context of the owner) passed first is
  mutable, \<^verbatim>\<open>modifyAsEqual\<close> succeeds. It returns \<open>v\<close> unchanged when the context of \<open>v\<close>
  shares the owner's token and \<open>v\<close> is the batch owner (its context is primary), so a
  related batch owner is never made subordinate; more generally it returns \<open>v\<close> unchanged
  exactly when the context of \<open>v\<close> shares the owner's token and either the owner's context
  is subordinate or the context of \<open>v\<close> is primary. Otherwise it returns a new reference
  holding a copy of \<open>v\<close> that carries the owner's own context.
\<close>
theorem modifyAsEqual_amended:
  "isMutableContext (contextOf ctx h) h \<and> v < nvals h \<longrightarrow>
     (\<exists>w h'. modifyAsEqual ctx v h = Inr (w, h')
        \<and> (isRelatedContext (getMutationContext v h) (contextOf ctx h) h
            \<and> isPrimaryContext (getMutationContext v h) h \<longrightarrow> w = v \<and> h' = h)
        \<and> (w = v \<longleftrightarrow>
             isRelatedContext (getMutationContext v h) (contextOf ctx h) h
             \<and> (isSubordinateContext (contextOf ctx h) h
                 \<or> isPrimaryContext (getMutationContext v h) h))
        \<and> (w = v \<longrightarrow> h' = h)
        \<and> (w \<noteq> v \<longrightarrow>
             w = nvals h
             \<and> h' = h\<lparr>vals := (vals h)(nvals h := (vals h v)\<lparr>mctx := contextOf ctx h\<rparr>),
                       nvals := Suc (nvals h)\<rparr>
             \<and> getMutationContext w h' = contextOf ctx h
             \<and> isRelatedContext (getMutationContext w h') (contextOf ctx h) h'
             \<and> isMutable w h'
             \<and> vals h' v = vals h v))"
  by (auto simp: modifyAsEqual_def contextOf_def ctx_defs alloc_defs Let_def
      split: ContextArg.splits prod.splits)

theorem modifyAsEqual_amended_witness:
  "modifyAsEqual (AsPersistent 1) 1 example_heap = Inr (1, example_heap)
   \<and> modifyAsEqual (AsContext 2) 4 example_heap = Inr (4, example_heap)
   \<and> (\<exists>h'. modifyAsEqual (AsPersistent 1) 2 example_heap = Inr (5, h')
          \<and> getMutationContext 5 h' = 1 \<and> content (vals h' 5) = 12 \<and> isMutable 5 h')"
proof -
  have p1: "isMutableContext (contextOf (AsPersistent 1) example_heap) example_heap
      \<and> contextOf (AsPersistent 1) example_heap = 1"
    by (simp add: contextOf_def ctx_defs example_heap_simps)
  have p2: "isMutableContext (contextOf (AsContext 2) example_heap) example_heap"
    by (simp add: contextOf_def ctx_defs example_heap_simps)
  have a: "1 < nvals example_heap
      \<and> isRelatedContext (getMutationContext 1 example_heap)
            (contextOf (AsPersistent 1) example_heap) example_heap
      \<and> isPrimaryContext (getMutationContext 1 example_heap) example_heap"
    by (simp add: contextOf_def ctx_defs example_heap_simps)
  have b: "4 < nvals example_heap
      \<and> isRelatedContext (getMutationContext 4 example_heap)
            (contextOf (AsContext 2) example_heap) example_heap
      \<and> isSubordinateContext (contextOf (AsContext 2) example_heap) example_heap"
    by (simp add: contextOf_def ctx_defs example_heap_simps)
  have c: "2 < nvals example_heap \<and> nvals example_heap = 5
      \<and> content (vals example_heap 2) = 12
      \<and> \<not> isSubordinateContext (contextOf (AsPersistent 1) example_heap) example_heap
      \<and> \<not> isPrimaryContext (getMutationContext 2 example_heap) example_heap"
    by (simp add: contextOf_def ctx_defs example_heap_simps)
  from modifyAsEqual_amended [of "AsPersistent 1" example_heap 1] p1 a
  have 1: "modifyAsEqual (AsPersistent 1) 1 example_heap = Inr (1, example_heap)"
    by auto
  from modifyAsEqual_amended [of "AsContext 2" example_heap 4] p2 b
  have 2: "modifyAsEqual (AsContext 2) 4 example_heap = Inr (4, example_heap)"
    by auto
  from modifyAsEqual_amended [of "AsPersistent 1" example_heap 2] p1 c
  obtain w h' where r: "modifyAsEqual (AsPersistent 1) 2 example_heap = Inr (w, h')"
    and ne: "w \<noteq> 2"
    and cl: "w \<noteq> 2 \<longrightarrow> w = nvals example_heap
         \<and> h' = example_heap\<lparr>vals := (vals example_heap)(nvals example_heap :=
                  (vals example_heap 2)\<lparr>mctx := contextOf (AsPersistent 1) example_heap\<rparr>),
                nvals := Suc (nvals example_heap)\<rparr>
         \<and> getMutationContext w h' = contextOf (AsPersistent 1) example_heap
         \<and> isRelatedContext (getMutationContext w h') (contextOf (AsPersistent 1) example_heap) h'
         \<and> isMutable w h'
         \<and> vals h' 2 = vals example_heap 2"
    by blast
  from r ne cl p1 c
  have 3: "\<exists>h'. modifyAsEqual (AsPersistent 1) 2 example_heap = Inr (5, h')
          \<and> getMutationContext 5 h' = 1 \<and> content (vals h' 5) = 12 \<and> isMutable 5 h'"
    by (simp add: ctx_defs example_heap_simps)
  from 1 2 3 show ?thesis by simp
qed

text \<open>The claim as stated fails: values 2 and 4 share a subordinate context of an open
  batch. The context of value 4 is not primary, and yet \<^verbatim>\<open>modifyAsEqual(2, 4)\<close> returns
  value 4 itself and clones nothing.\<close>

theorem modifyAsEqual_counterexample:
  "isMutableContext (contextOf (AsPersistent 2) example_heap) example_heap
   \<and> \<not> (isRelatedContext (getMutationContext 4 example_heap) (contextOf (AsPersistent 2) example_heap) example_heap
         \<and> isPrimaryContext (getMutationContext 4 example_heap) example_heap)
   \<and> modifyAsEqual (AsPersistent 2) 4 example_heap = Inr (4, example_heap)"
  by (simp add: modifyAsEqual_def contextOf_def ctx_defs example_heap_simps)

section \<open>modifyProperty\<close>

text \<open>
  Claim C6. On an immutable parent \<^verbatim>\<open>modifyProperty(parent, name)\<close> always fails: it
  throws the error whose message is that of the invalid-operation helper, \<^verbatim>\<open>Invalid
  operation: Cannot modify properties of an immutable object\<close>. On a mutable parent whose slot \<open>name\<close> holds a value, it returns
  a child whose context holds the parent's token. If the slot's value already was related
  to the parent, that value is returned and the store is unchanged; if not, the result is
  a new reference holding a copy of the slot's value in a subordinate context of the
  parent's batch, the copy is written back to the slot (the other slots, the data and the
  context of the parent stay), and the former slot value is left as it was.
\<close>
theorem modifyProperty_cases:
  "(isImmutable parent h \<longrightarrow>
      modifyProperty parent name h =
        Inl (Error ''Invalid operation: Cannot modify properties of an immutable object''))
   \<and> (isMutable parent h \<and> valid_heap h \<and> parent < nvals h
       \<and> props (vals h parent) name = Some child \<longrightarrow>
      (\<exists>child' h'. modifyProperty parent name h = Inr (child', h')
         \<and> isRelatedContext (getMutationContext child' h') (getMutationContext parent h') h'
         \<and> token_of child' h' = token_of parent h
         \<and> (isRelatedContext (getMutationContext child h) (getMutationContext parent h) h \<longrightarrow>
              child' = child \<and> h' = h)
         \<and> (\<not> isRelatedContext (getMutationContext child h) (getMutationContext parent h) h \<longrightarrow>
              child' = nvals h \<and> child' \<noteq> child
              \<and> content (vals h' child') = content (vals h child)
              \<and> props (vals h' child') = props (vals h child)
              \<and> isSubordinateContext (getMutationContext child' h') h'
              \<and> props (vals h' parent) = (props (vals h parent))(name \<mapsto> child')
              \<and> mctx (vals h' parent) = mctx (vals h parent)
              \<and> content (vals h' parent) = content (vals h parent)
              \<and> vals h' child = vals h child
              \<and> tokens h' = tokens h)))"
  by (auto simp: modifyProperty_def throwInvalidOperation_def throwError_def valid_heap_def
      ctx_defs alloc_defs Let_def split: prod.splits)

theorem modifyProperty_cases_witness:
  "modifyProperty 0 ''left'' example_heap =
     Inl (Error ''Invalid operation: Cannot modify properties of an immutable object'')
   \<and> modifyProperty 1 ''left'' example_heap = Inr (2, example_heap)
   \<and> (\<exists>h'. modifyProperty 1 ''right'' example_heap = Inr (5, h')
         \<and> token_of 5 h' = 1 \<and> content (vals h' 5) = 10
         \<and> isSubordinateContext (getMutationContext 5 h') h'
         \<and> props (vals h' 1) ''right'' = Some 5
         \<and> props (vals h' 1) ''left'' = Some 2
         \<and> vals h' 0 = vals example_heap 0)"
proof -
  have imm: "isImmutable 0 example_heap"
    by (simp add: ctx_defs example_heap_simps)
  have pre: "isMutable 1 example_heap \<and> valid_heap example_heap \<and> 1 < nvals example_heap"
    by (simp add: valid_example ctx_defs example_heap_simps)
  have l: "props (vals example_heap 1) ''left'' = Some 2
      \<and> isRelatedContext (getMutationContext 2 example_heap) (getMutationContext 1 example_heap) example_heap"
    by (simp add: ctx_defs example_heap_simps)
  have r: "props (vals example_heap 1) ''right'' = Some 0
      \<and> \<not> isRelatedContext (getMutationContext 0 example_heap) (getMutationContext 1 example_heap) example_heap"
    by (simp add: ctx_defs example_heap_simps)
  have c: "nvals example_heap = 5 \<and> token_of 1 example_heap = 1
      \<and> content (vals example_heap 0) = 10
      \<and> props (vals example_heap 1) = [''left'' \<mapsto> 2, ''right'' \<mapsto> 0]"
    by (simp add: ctx_defs example_heap_simps)
  from modifyProperty_cases [of 0 example_heap "''left''"] imm
  have 1: "modifyProperty 0 ''left'' example_heap =
     Inl (Error ''Invalid operation: Cannot modify properties of an immutable object'')"
    by simp
  from modifyProperty_cases [of 1 example_heap "''left''" 2] pre l
  have 2: "modifyProperty 1 ''left'' example_heap = Inr (2, example_heap)"
    by auto
  from modifyProperty_cases [of 1 example_heap "''right''" 0] pre r c
  have 3: "\<exists>h'. modifyProperty 1 ''right'' example_heap = Inr (5, h')
         \<and> token_of 5 h' = 1 \<and> content (vals h' 5) = 10
         \<and> isSubordinateContext (getMutationContext 5 h') h'
         \<and> props (vals h' 1) ''right'' = Some 5
         \<and> props (vals h' 1) ''left'' = Some 2
         \<and> vals h' 0 = vals example_heap 0"
    by auto
  from 1 2 3 show ?thesis by simp
qed

section \<open>update\<close>

text \<open>
  What \<^verbatim>\<open>update\<close> does, for every procedure. The procedure is applied to the result of
  \<^verbatim>\<open>begin\<close>, which is mutable at the time of the call. If the procedure throws, so does
  \<^verbatim>\<open>update\<close>, with the store as the procedure left it: nothing is committed. If it
  returns, the result is the \<^verbatim>\<open>commit\<close> of the working value.
\<close>

lemma update_invokes_on_mutable:
  "isMutable (fst (begin' v h)) (snd (begin' v h))
   \<and> update mutate v h =
       (case mutate (fst (begin' v h)) (snd (begin' v h)) of
          Inl (e, h2) \<Rightarrow> Inl (e, h2)
        | Inr h2 \<Rightarrow> Inr (commit (fst (begin' v h)) h2))"
proof -
  have "isMutable (fst (begin' v h)) (snd (begin' v h))"
    by (auto simp: begin'_def incScope_def ctx_defs alloc_defs Let_def)
  moreover have "update mutate v h =
       (case mutate (fst (begin' v h)) (snd (begin' v h)) of
          Inl (e, h2) \<Rightarrow> Inl (e, h2)
        | Inr h2 \<Rightarrow> Inr (commit (fst (begin' v h)) h2))"
    by (simp add: update_def case_prod_beta)
  ultimately show ?thesis by simp
qed

lemma update_skips_commit_on_throw:
  "mutate (fst (begin' v h)) (snd (begin' v h)) = Inl (e, h2) \<Longrightarrow>
   update mutate v h = Inl (e, h2)"
  by (simp add: update_def case_prod_beta)

text \<open>
  When \<open>v\<close> started immutable and the procedure returns with the context slot of the
  working copy and that context (its token and its scope) as \<^verbatim>\<open>begin\<close> made them, the
  value returned is the working copy and it is immutable again. Nothing else is needed
  of the procedure for this.
\<close>

lemma update_freezes_when_context_kept:
  assumes imm: "isImmutable v h"
    and ret: "mutate (fst (begin' v h)) (snd (begin' v h)) = Inr h2"
    and slot: "getMutationContext (fst (begin' v h)) h2 =
               getMutationContext (fst (begin' v h)) (snd (begin' v h))"
    and ctx: "ctxs h2 (getMutationContext (fst (begin' v h)) (snd (begin' v h))) =
              ctxs (snd (begin' v h)) (getMutationContext (fst (begin' v h)) (snd (begin' v h)))"
  shows "update mutate v h = Inr (fst (begin' v h), close (nctxs h) h2)
         \<and> isImmutable (fst (begin' v h)) (close (nctxs h) h2)"
proof -
  define h1 where "h1 = h\<lparr>tokens := (tokens h)(ntoks h := True), ntoks := Suc (ntoks h),
          ctxs := (ctxs h)(nctxs h := \<lparr>token = ntoks h, scope = 0\<rparr>), nctxs := Suc (nctxs h),
          vals := (vals h)(nvals h := (vals h v)\<lparr>mctx := nctxs h\<rparr>),
          nvals := Suc (nvals h)\<rparr>"
  have b: "begin' v h = (nvals h, h1)"
    using imm by (simp add: begin'_def ctx_defs alloc_defs Let_def h1_def)
  from slot ctx b
  have h2: "mctx (vals h2 (nvals h)) = nctxs h"
    "ctxs h2 (nctxs h) = \<lparr>token = ntoks h, scope = 0\<rparr>"
    by (auto simp: h1_def ctx_defs)
  have u: "update mutate v h = Inr (nvals h, close (nctxs h) h2)"
    using b h2 ret by (simp add: update_def commit_def ctx_defs Let_def)
  show ?thesis
    using h2 by (simp add: u b close_def ctx_defs)
qed

text \<open>
  The original is left as it was when, besides, the store is well formed and the
  procedure writes neither \<open>v\<close> nor the context or the token of \<open>v\<close>: the token closed by
  the \<^verbatim>\<open>commit\<close> is the new one of the working copy.
\<close>

lemma update_leaves_original:
  assumes imm: "isImmutable v h" and ok: "valid_heap h" and v: "v < nvals h"
    and ret: "mutate (fst (begin' v h)) (snd (begin' v h)) = Inr h2"
    and slot: "getMutationContext (fst (begin' v h)) h2 =
               getMutationContext (fst (begin' v h)) (snd (begin' v h))"
    and ctx: "ctxs h2 (getMutationContext (fst (begin' v h)) (snd (begin' v h))) =
              ctxs (snd (begin' v h)) (getMutationContext (fst (begin' v h)) (snd (begin' v h)))"
    and orig: "vals h2 v = vals (snd (begin' v h)) v"
      "ctxs h2 (getMutationContext v h) = ctxs (snd (begin' v h)) (getMutationContext v h)"
      "tokens h2 (token_of v h) = tokens (snd (begin' v h)) (token_of v h)"
  shows "fst (begin' v h) \<noteq> v
         \<and> vals (close (nctxs h) h2) v = vals h v
         \<and> ctxs (close (nctxs h) h2) (getMutationContext v h) = ctxs h (getMutationContext v h)
         \<and> tokens (close (nctxs h) h2) (token_of v h) = tokens h (token_of v h)
         \<and> isImmutable v (close (nctxs h) h2)"
proof -
  define h1 where "h1 = h\<lparr>tokens := (tokens h)(ntoks h := True), ntoks := Suc (ntoks h),
          ctxs := (ctxs h)(nctxs h := \<lparr>token = ntoks h, scope = 0\<rparr>), nctxs := Suc (nctxs h),
          vals := (vals h)(nvals h := (vals h v)\<lparr>mctx := nctxs h\<rparr>),
          nvals := Suc (nvals h)\<rparr>"
  have b: "begin' v h = (nvals h, h1)"
    using imm by (simp add: begin'_def ctx_defs alloc_defs Let_def h1_def)
  have cv: "mctx (vals h v) < nctxs h" and tv: "token (ctxs h (mctx (vals h v))) < ntoks h"
    using ok v by (auto simp: valid_heap_def)
  from slot ctx orig b cv tv v
  have h2: "mctx (vals h2 (nvals h)) = nctxs h"
    "ctxs h2 (nctxs h) = \<lparr>token = ntoks h, scope = 0\<rparr>"
    "vals h2 v = vals h v"
    "ctxs h2 (mctx (vals h v)) = ctxs h (mctx (vals h v))"
    "tokens h2 (token (ctxs h (mctx (vals h v)))) = tokens h (token (ctxs h (mctx (vals h v))))"
    by (auto simp: h1_def ctx_defs)
  show ?thesis
    using h2 v cv tv imm by (auto simp: b close_def ctx_defs)
qed

text \<open>
  Claim C5. \<^verbatim>\<open>update\<close> is to hand the procedure a mutable value and, when \<open>v\<close> started
  immutable, to return a value that is immutable again. The code does not: for the
  immutable value 0 and the procedure \<^verbatim>\<open>(x) => { begin(x) }\<close>, \<^verbatim>\<open>update\<close> returns
  normally, the value it returns is the working copy 5, and that value is still mutable.
  The procedure raised the scope of the working copy to 1, and the one \<^verbatim>\<open>commit\<close> of
  \<^verbatim>\<open>update\<close> only lowers it to 0 and leaves the token \<^verbatim>\<open>true\<close>.
\<close>
theorem update_leaks_mutability:
  "isImmutable 0 example_heap
   \<and> \<not> isl (update reenter 0 example_heap)
   \<and> fst (projr (update reenter 0 example_heap)) = 5
   \<and> isMutable 5 (snd (projr (update reenter 0 example_heap)))
   \<and> scope (ctxs (snd (projr (update reenter 0 example_heap))) 4) = 0
   \<and> tokens (snd (projr (update reenter 0 example_heap))) 3"
proof -
  define h1 where "h1 = snd (begin' 0 example_heap)"
  have f: "begin' 0 example_heap = (5, h1)"
    by (simp add: h1_def begin_example_0)
  have h1: "mctx (vals h1 5) = 4" "ctxs h1 4 = \<lparr>token = 3, scope = 0\<rparr>" "tokens h1 3"
    by (simp_all add: h1_def begin_example_0)
  have r: "reenter 5 h1 = Inr (incScope 4 h1)"
    using h1 by (simp add: reenter_def begin'_def ctx_defs)
  have u: "update reenter 0 example_heap = Inr (commit 5 (incScope 4 h1))"
    by (simp add: update_def f r)
  have c: "fst (commit 5 (incScope 4 h1)) = 5
      \<and> isMutable 5 (snd (commit 5 (incScope 4 h1)))
      \<and> scope (ctxs (snd (commit 5 (incScope 4 h1))) 4) = 0
      \<and> tokens (snd (commit 5 (incScope 4 h1))) 3"
    using h1 by (simp add: commit_def incScope_def decScope_def close_def ctx_defs Let_def)
  have i: "isImmutable 0 example_heap"
    by (simp add: ctx_defs example_heap_simps)
  from u c i show ?thesis
    by simp
qed

text \<open>A procedure that throws: \<^verbatim>\<open>update\<close> throws too, and the working copy it made for
  the immutable value 0 is left mutable in the store.\<close>

lemma update_throwing_example:
  "update throw_error 0 example_heap = Inl (Error [], snd (begin' 0 example_heap))
   \<and> isMutable 5 (snd (begin' 0 example_heap))"
  by (simp add: update_def throw_error_def begin_example_0 ctx_defs)

section \<open>Failure conditions\<close>

text \<open>
  Claim C8. \<^verbatim>\<open>modifyAsSubordinate\<close> and \<^verbatim>\<open>modifyAsEqual\<close> raise the argument error, and fail
  at all, if and only if the context (or the context of the owner) passed first is not
  mutable; the argument error is the error with the message \<^verbatim>\<open>Invalid value for parameter
  "context": The first argument must refer to a mutable object or mutation context\<close>. But they and \<^verbatim>\<open>modifyProperty\<close> are not the only operations of the module that
  can fail: \<^verbatim>\<open>isPersistentConstructor\<close> applied to an arrow function, which has no
  \<^verbatim>\<open>prototype\<close>, raises a TypeError instead of answering \<^verbatim>\<open>false\<close>.
\<close>
theorem failure_conditions:
  "(modifyAsSubordinate ctx v h =
      throwArgumentError ''context''
        (Some ''The first argument must refer to a mutable object or mutation context'')
    \<longleftrightarrow> \<not> isMutableContext (contextOf ctx h) h)
   \<and> (isl (modifyAsSubordinate ctx v h) \<longleftrightarrow> \<not> isMutableContext (contextOf ctx h) h)
   \<and> (modifyAsEqual ctx v h =
      throwArgumentError ''context''
        (Some ''The first argument must refer to a mutable object or mutation context'')
    \<longleftrightarrow> \<not> isMutableContext (contextOf ctx h) h)
   \<and> (isl (modifyAsEqual ctx v h) \<longleftrightarrow> \<not> isMutableContext (contextOf ctx h) h)
   \<and> (throwArgumentError ''context''
        (Some ''The first argument must refer to a mutable object or mutation context'')
        :: error + (vref \<times> 'a heap)) =
       Inl (Error (''Invalid value for parameter '' @ [CHR 0x22] @ ''context'' @ [CHR 0x22] @
         '': The first argument must refer to a mutable object or mutation context''))
   \<and> isPersistentConstructor arrow_function = Inl TypeError"
  by (auto simp: modifyAsSubordinate_def modifyAsEqual_def throwArgumentError_def throwError_def
      isPersistentConstructor_def arrow_function_def Let_def split: prod.splits)

section \<open>The sentinel node and the constructors\<close>

text \<open>
  Claim C10. A node constructed without children has itself as left and right child, so
  the sentinel \<open>None\<close>, the first node ever allocated, satisfies \<^verbatim>\<open>None.left === None\<close> and
  \<^verbatim>\<open>None.right === None\<close> and has count 0. \<^verbatim>\<open>make(ord)\<close> is a tree that is not editable,
  has root \<open>None\<close> and size 0. \<^verbatim>\<open>makeNode(tree, red, key, value)\<close> allocates a node with
  count 1, both children \<open>None\<close> and the \<open>editable\<close> flag of the tree.
\<close>
theorem sentinel_and_constructors:
  "None_Node = 0
   \<and> nodes (module_nodes :: ('k, 'v) nheap) None_Node =
       Some \<lparr>editable = True, key = None, value' = None, red = False, count = 0,
             left = None_Node, right = None_Node\<rparr>
   \<and> fst (new_Node e k v r c None None (h :: ('k, 'v) nheap)) = nnodes h
   \<and> nodes (snd (new_Node e k v r c None None h)) (nnodes h) =
       Some \<lparr>editable = e, key = k, value' = v, red = r, count = c,
             left = nnodes h, right = nnodes h\<rparr>
   \<and> tree_editable (make o') = False \<and> root (make o') = None_Node \<and> tree_size (make o') = 0
   \<and> ord (make o') = o'
   \<and> nodes (snd (makeNode tree rd k' v' h)) (fst (makeNode tree rd k' v' h)) =
       Some \<lparr>editable = tree_editable tree, key = Some k', value' = Some v', red = rd,
             count = 1, left = None_Node, right = None_Node\<rparr>"
  by (simp add: None_Node_def module_nodes_def empty_nodes_def new_Node_def make_def
      makeNode_def new_RedBlackTree_def Let_def)

end
